theory Spec2Isabelle
  imports Complex_Main
begin

section \<open>Data model (src/types.ts)\<close>

record KeyMoment =
  timestamp_description :: string
  event_summary :: string

record AnalysisResult =
  title :: string
  summary :: string
  key_topics :: "string list"
  key_moments :: "KeyMoment list"

text \<open>
  The browser's \<open>File\<close>: only its name and its MIME type (the \<open>type\<close> property, here
  \<open>mime\<close>) matter to the controller.
\<close>

record File =
  name :: string
  mime :: string

text \<open>A frame is the encoded image data the extractor returns.\<close>

type_synonym frame = string

text \<open>
  What a rejected promise or a \<open>throw\<close> delivers to the \<open>catch\<close> clause of
  \<open>handleAnalyze\<close>: an instance of \<open>Error\<close> with its \<open>message\<close>, or any other
  JavaScript value. For the latter the text it carries is kept (the string itself for a
  thrown string, the \<open>message\<close> property of a plain object, empty when there is none).
\<close>

datatype js_thrown = ErrorObj string | NonError string

section \<open>Controller state (src/App.tsx, lines 15 to 22)\<close>

record app_state =
  videoFile :: "File option"
  videoUrl :: "string option"
  analysisResult :: "AnalysisResult option"
  isLoading :: bool
  loadingMessage :: string
  error :: "string option"
  frameCount :: int
  extractionProgress :: real

definition initial_state :: app_state where
  "initial_state =
     \<lparr>videoFile = None, videoUrl = None, analysisResult = None, isLoading = False,
      loadingMessage = '''', error = None, frameCount = 15, extractionProgress = 0\<rparr>"

section \<open>handleFileUpload (lines 25 to 34)\<close>

definition startsWith :: "string \<Rightarrow> string \<Rightarrow> bool" where
  "startsWith s p = (take (length p) s = p)"

text \<open>
  \<open>URL.createObjectURL\<close> is the browser's; it is a parameter. The argument is an option
  because the source guards against a missing file (\<open>file && ...\<close>).
\<close>

definition handleFileUpload :: "(File \<Rightarrow> string) \<Rightarrow> File option \<Rightarrow> app_state \<Rightarrow> app_state" where
  "handleFileUpload createObjectURL file s =
     (case file of
        Some f \<Rightarrow>
          if startsWith (mime f) ''video/''
          then s\<lparr>videoFile := Some f, videoUrl := Some (createObjectURL f),
                 analysisResult := None, error := None\<rparr>
          else s\<lparr>error := Some ''Please upload a valid video file.''\<rparr>
      | None \<Rightarrow> s\<lparr>error := Some ''Please upload a valid video file.''\<rparr>)"

section \<open>handleAnalyze (lines 36 to 71)\<close>

text \<open>
  \<open>handleAnalyze\<close> is an async function: it runs to its first \<open>await\<close>, is suspended
  while \<open>extractFramesFromVideo\<close> works, resumes, is suspended again while
  \<open>analyzeVideoFrames\<close> works, and resumes a last time. Where it is suspended is the
  \<open>phase\<close>; \<open>Extracting\<close> and \<open>Analyzing\<close> hold the arguments of the pending call.
  Each stretch between two suspension points runs without interruption, and React applies
  the state setters called in one stretch as one batch, in the order of the source
  (automatic batching, React 18 and later): a state of the model is what a render can
  see. The call of \<open>console.error\<close> on line 64 changes no state and is left out.
  \<open>frameCount\<close> holds the integers the slider delivers; \<open>extractionProgress\<close> is
  only stored, never computed with.
\<close>

datatype phase = NoRun | Extracting File int | Analyzing "frame list"

text \<open>Lines 37 to 53: up to the first \<open>await\<close>.\<close>

definition handleAnalyze :: "app_state \<Rightarrow> app_state \<times> phase" where
  "handleAnalyze s =
     (case videoFile s of
        None \<Rightarrow> (s\<lparr>error := Some ''No video file selected.''\<rparr>, NoRun)
      | Some f \<Rightarrow>
          (s\<lparr>isLoading := True, error := None, analysisResult := None,
             extractionProgress := 0,
             loadingMessage := ''Extracting key frames from video...''\<rparr>,
           Extracting f (frameCount s)))"

text \<open>Line 65.\<close>

fun errorMessage :: "js_thrown \<Rightarrow> string" where
  "errorMessage (ErrorObj m) = m"
| "errorMessage (NonError d) = ''An unknown error occurred during analysis.''"

text \<open>Lines 63 to 70: the \<open>catch\<close> clause followed by the \<open>finally\<close> clause.\<close>

definition catch_finally :: "js_thrown \<Rightarrow> app_state \<Rightarrow> app_state" where
  "catch_finally err s =
     s\<lparr>error := Some (''Analysis Failed: '' @ errorMessage err),
       isLoading := False, loadingMessage := ''''\<rparr>"

text \<open>
  Lines 55 to 60: the extraction has settled, with the thrown value or with the frames.
\<close>

definition after_extraction :: "js_thrown + frame list \<Rightarrow> app_state \<Rightarrow> app_state \<times> phase" where
  "after_extraction outcome s =
     (case outcome of
        Inl err \<Rightarrow> (catch_finally err s, NoRun)
      | Inr frames \<Rightarrow>
          if length frames = 0
          then (catch_finally (ErrorObj ''Could not extract any frames from the video. The file might be corrupted or in an unsupported format.'') s, NoRun)
          else (s\<lparr>loadingMessage := ''Sending frames to Gemini for analysis...''\<rparr>,
                Analyzing frames))"

text \<open>
  Lines 61 to 70: the analysis has settled, with the thrown value or with the result.
\<close>

definition after_analysis :: "js_thrown + AnalysisResult \<Rightarrow> app_state \<Rightarrow> app_state \<times> phase" where
  "after_analysis outcome s =
     (case outcome of
        Inl err \<Rightarrow> (catch_finally err s, NoRun)
      | Inr result \<Rightarrow>
          (s\<lparr>analysisResult := Some result, isLoading := False, loadingMessage := ''''\<rparr>,
           NoRun))"

section \<open>The rendered controls (lines 79 to 110)\<close>

text \<open>Line 81: the slider is rendered when a file is selected; line 98: it is disabled
  while loading. Line 102: the analyze button is rendered when a file is selected and
  nothing is loading.\<close>

definition sliderRendered :: "app_state \<Rightarrow> bool" where
  "sliderRendered s = (videoFile s \<noteq> None)"

definition sliderDisabled :: "app_state \<Rightarrow> bool" where
  "sliderDisabled s = isLoading s"

definition analyzeButtonRendered :: "app_state \<Rightarrow> bool" where
  "analyzeButtonRendered s = (videoFile s \<noteq> None \<and> \<not> isLoading s)"

section \<open>Events\<close>

text \<open>
  What can happen to the controller: a file is handed to \<open>handleFileUpload\<close>, the slider
  fires \<open>onChange\<close> (the browser fires it only on an enabled control, with a value
  between \<open>min\<close> and \<open>max\<close>), the analyze button is clicked, the extractor reports
  progress, and the two awaited calls settle. The upload zone itself is not part of
  \<open>App.tsx\<close>; uploads are taken to be possible in every state.
\<close>

datatype event =
    FileUpload "File option"
  | SliderChange int
  | AnalyzeClick
  | Progress real
  | ExtractionSettled "js_thrown + frame list"
  | AnalysisSettled "js_thrown + AnalysisResult"

record controller =
  ui :: app_state
  run :: phase

definition initial_controller :: controller where
  "initial_controller = \<lparr>ui = initial_state, run = NoRun\<rparr>"

definition resume :: "app_state \<times> phase \<Rightarrow> controller" where
  "resume r = \<lparr>ui = fst r, run = snd r\<rparr>"

fun fire :: "(File \<Rightarrow> string) \<Rightarrow> controller \<Rightarrow> event \<Rightarrow> controller option" where
  "fire createObjectURL c (FileUpload file) =
     Some (c\<lparr>ui := handleFileUpload createObjectURL file (ui c)\<rparr>)"
| "fire createObjectURL c (SliderChange v) =
     (if sliderRendered (ui c) \<and> \<not> sliderDisabled (ui c) \<and> 5 \<le> v \<and> v \<le> 50
      then Some (c\<lparr>ui := (ui c)\<lparr>frameCount := v\<rparr>\<rparr>) else None)"
| "fire createObjectURL c AnalyzeClick =
     (if analyzeButtonRendered (ui c) then Some (resume (handleAnalyze (ui c))) else None)"
| "fire createObjectURL c (Progress p) =
     (case run c of
        Extracting f n \<Rightarrow> Some (c\<lparr>ui := (ui c)\<lparr>extractionProgress := p\<rparr>\<rparr>)
      | _ \<Rightarrow> None)"
| "fire createObjectURL c (ExtractionSettled outcome) =
     (case run c of
        Extracting f n \<Rightarrow> Some (resume (after_extraction outcome (ui c)))
      | _ \<Rightarrow> None)"
| "fire createObjectURL c (AnalysisSettled outcome) =
     (case run c of
        Analyzing frames \<Rightarrow> Some (resume (after_analysis outcome (ui c)))
      | _ \<Rightarrow> None)"

fun exec :: "(File \<Rightarrow> string) \<Rightarrow> controller \<Rightarrow> event list \<Rightarrow> controller option" where
  "exec createObjectURL c [] = Some c"
| "exec createObjectURL c (e # es) =
     (case fire createObjectURL c e of
        None \<Rightarrow> None
      | Some c' \<Rightarrow> exec createObjectURL c' es)"

section \<open>Notions used by the properties\<close>

fun isUpload :: "event \<Rightarrow> bool" where
  "isUpload (FileUpload file) = True"
| "isUpload e = False"

text \<open>An upload that takes the \<open>else\<close> branch of \<open>handleFileUpload\<close> (line 32).\<close>

fun invalidUpload :: "event \<Rightarrow> bool" where
  "invalidUpload (FileUpload None) = True"
| "invalidUpload (FileUpload (Some f)) = (\<not> startsWith (mime f) ''video/'')"
| "invalidUpload e = False"

text \<open>
  An in-flight period: a sequence of events each of which finds the loading flag raised.
  The last of them may be the one that clears it.
\<close>

fun exec_while_loading :: "(File \<Rightarrow> string) \<Rightarrow> controller \<Rightarrow> event list \<Rightarrow> controller option" where
  "exec_while_loading createObjectURL c [] = Some c"
| "exec_while_loading createObjectURL c (e # es) =
     (if isLoading (ui c)
      then (case fire createObjectURL c e of
              None \<Rightarrow> None
            | Some c' \<Rightarrow> exec_while_loading createObjectURL c' es)
      else None)"

text \<open>
  The fault's message in the words of the specification: the text the thrown value
  carries, whatever kind of value it is. The source's own reading is \<open>errorMessage\<close>.
\<close>

fun fault_message :: "js_thrown \<Rightarrow> string" where
  "fault_message (ErrorObj m) = m"
| "fault_message (NonError d) = d"

text \<open>Event sequences without any upload, and without any invalid upload.\<close>

definition noUploads :: "event list \<Rightarrow> bool" where
  "noUploads es = list_all (\<lambda>e. \<not> isUpload e) es"

definition noInvalidUploads :: "event list \<Rightarrow> bool" where
  "noInvalidUploads es = list_all (\<lambda>e. \<not> invalidUpload e) es"

text \<open>
  The facts that hold in every state the controller can reach; each is used by one of
  the properties below.
\<close>

definition controller_inv :: "controller \<Rightarrow> bool" where
  "controller_inv c =
     ((isLoading (ui c) = (run c \<noteq> NoRun))
    \<and> (\<not> isLoading (ui c) \<longrightarrow> loadingMessage (ui c) = '''')
    \<and> (isLoading (ui c) \<longrightarrow> analysisResult (ui c) = None \<and> videoFile (ui c) \<noteq> None)
    \<and> (isLoading (ui c) \<and> error (ui c) \<noteq> None \<longrightarrow>
          error (ui c) = Some ''Please upload a valid video file.'')
    \<and> run c \<noteq> Analyzing []
    \<and> (analysisResult (ui c) \<noteq> None \<and> error (ui c) \<noteq> None \<longrightarrow>
          error (ui c) = Some ''Please upload a valid video file.''))"

text \<open>What holds as long as no invalid upload has happened.\<close>

definition exclusive_inv :: "controller \<Rightarrow> bool" where
  "exclusive_inv c =
     ((isLoading (ui c) \<longrightarrow> error (ui c) = None)
    \<and> (analysisResult (ui c) = None \<or> error (ui c) = None))"

section \<open>Sample inputs\<close>

definition clip :: File where
  "clip = \<lparr>name = ''clip.mp4'', mime = ''video/mp4''\<rparr>"

definition memo :: File where
  "memo = \<lparr>name = ''notes.txt'', mime = ''text/plain''\<rparr>"

definition blobUrl :: "File \<Rightarrow> string" where
  "blobUrl f = ''blob:'' @ name f"

definition report :: AnalysisResult where
  "report = \<lparr>title = ''T'', summary = ''S'', key_topics = [''a''],
     key_moments = [\<lparr>timestamp_description = ''0:02'', event_summary = ''x''\<rparr>]\<rparr>"

text \<open>The state after \<open>clip\<close> has been uploaded, and the states of a run on it.\<close>

definition selected :: app_state where
  "selected = initial_state\<lparr>videoFile := Some clip, videoUrl := Some ''blob:clip.mp4''\<rparr>"

definition extracting :: controller where
  "extracting =
     \<lparr>ui = selected\<lparr>isLoading := True,
            loadingMessage := ''Extracting key frames from video...''\<rparr>,
      run = Extracting clip 15\<rparr>"

definition analyzing :: controller where
  "analyzing =
     \<lparr>ui = selected\<lparr>isLoading := True, extractionProgress := 1,
            loadingMessage := ''Sending frames to Gemini for analysis...''\<rparr>,
      run = Analyzing [''frame'']\<rparr>"

definition finished :: controller where
  "finished =
     \<lparr>ui = selected\<lparr>analysisResult := Some report, extractionProgress := 1\<rparr>,
      run = NoRun\<rparr>"

definition failed :: controller where
  "failed = \<lparr>ui = selected\<lparr>error := Some ''Analysis Failed: decode''\<rparr>, run = NoRun\<rparr>"

definition finished_then_invalid :: controller where
  "finished_then_invalid =
     finished\<lparr>ui := (ui finished)\<lparr>error := Some ''Please upload a valid video file.''\<rparr>\<rparr>"

section \<open>Reachable states\<close>

lemmas controller_defs =
  initial_controller_def initial_state_def handleFileUpload_def startsWith_def
  analyzeButtonRendered_def sliderRendered_def sliderDisabled_def handleAnalyze_def
  resume_def after_extraction_def after_analysis_def catch_finally_def

lemmas sample_defs =
  clip_def memo_def blobUrl_def selected_def extracting_def analyzing_def finished_def
  failed_def finished_then_invalid_def

lemma inv_initial: "controller_inv initial_controller"
  by (simp add: controller_inv_def initial_controller_def initial_state_def)

lemma inv_upload:
  "controller_inv c \<Longrightarrow> controller_inv (c\<lparr>ui := handleFileUpload mk file (ui c)\<rparr>)"
  by (auto simp: controller_inv_def handleFileUpload_def split: option.splits)

lemma inv_click:
  "controller_inv c \<Longrightarrow> analyzeButtonRendered (ui c) \<Longrightarrow>
   controller_inv (resume (handleAnalyze (ui c)))"
  by (auto simp: controller_inv_def handleAnalyze_def resume_def analyzeButtonRendered_def
      split: option.splits)

lemma inv_extracted:
  "controller_inv c \<Longrightarrow> run c = Extracting f n \<Longrightarrow>
   controller_inv (resume (after_extraction outcome (ui c)))"
  by (auto simp: controller_inv_def after_extraction_def catch_finally_def resume_def
      split: sum.splits)

lemma inv_analyzed:
  "controller_inv c \<Longrightarrow> run c = Analyzing fs \<Longrightarrow>
   controller_inv (resume (after_analysis outcome (ui c)))"
  by (auto simp: controller_inv_def after_analysis_def catch_finally_def resume_def
      split: sum.splits)

lemma inv_fire:
  assumes "controller_inv c" and "fire mk c e = Some c'"
  shows "controller_inv c'"
proof (cases e)
  case (FileUpload fo)
  with assms show ?thesis using inv_upload by auto
next
  case (SliderChange v)
  with assms show ?thesis by (auto simp: controller_inv_def split: if_splits)
next
  case AnalyzeClick
  with assms show ?thesis using inv_click by (auto split: if_splits)
next
  case (Progress p)
  with assms show ?thesis by (auto simp: controller_inv_def split: phase.splits)
next
  case (ExtractionSettled outcome)
  with assms show ?thesis using inv_extracted by (auto split: phase.splits)
next
  case (AnalysisSettled outcome)
  with assms show ?thesis using inv_analyzed by (auto split: phase.splits)
qed

lemma inv_exec:
  "controller_inv c \<Longrightarrow> exec mk c es = Some c' \<Longrightarrow> controller_inv c'"
proof (induction es arbitrary: c)
  case Nil
  then show ?case by simp
next
  case (Cons e es)
  then show ?case by (auto split: option.splits dest: inv_fire)
qed

lemma inv_reachable:
  "exec mk initial_controller es = Some c \<Longrightarrow> controller_inv c"
  using inv_exec [OF inv_initial] .

text \<open>The sample run, step by step.\<close>

lemma reach_selected:
  "exec blobUrl initial_controller [FileUpload (Some clip)] = Some \<lparr>ui = selected, run = NoRun\<rparr>"
  by (simp add: controller_defs sample_defs)

lemma reach_extracting:
  "exec blobUrl initial_controller [FileUpload (Some clip), AnalyzeClick] = Some extracting"
  by (simp add: controller_defs sample_defs)

lemma reach_analyzing:
  "exec blobUrl initial_controller
     [FileUpload (Some clip), AnalyzeClick, Progress 1, ExtractionSettled (Inr [''frame''])]
   = Some analyzing"
  by (simp add: controller_defs sample_defs)

lemma reach_finished:
  "exec blobUrl initial_controller
     [FileUpload (Some clip), AnalyzeClick, Progress 1, ExtractionSettled (Inr [''frame'']),
      AnalysisSettled (Inr report)]
   = Some finished"
  by (simp add: controller_defs sample_defs)

section \<open>Facts about single steps\<close>

lemma exclusive_fire:
  assumes "controller_inv c" and "exclusive_inv c" and "\<not> invalidUpload e"
    and "fire mk c e = Some c'"
  shows "exclusive_inv c'"
proof (cases e)
  case (FileUpload fo)
  with assms show ?thesis
    by (cases fo) (auto simp: exclusive_inv_def handleFileUpload_def)
next
  case (SliderChange v)
  with assms show ?thesis by (auto simp: exclusive_inv_def split: if_splits)
next
  case AnalyzeClick
  with assms show ?thesis
    by (auto simp: exclusive_inv_def handleAnalyze_def resume_def analyzeButtonRendered_def
        split: if_splits option.splits)
next
  case (Progress p)
  with assms show ?thesis by (auto simp: exclusive_inv_def split: phase.splits)
next
  case (ExtractionSettled outcome)
  with assms show ?thesis
    by (auto simp: exclusive_inv_def controller_inv_def after_extraction_def catch_finally_def
        resume_def split: phase.splits sum.splits if_splits)
next
  case (AnalysisSettled outcome)
  with assms show ?thesis
    by (auto simp: exclusive_inv_def controller_inv_def after_analysis_def catch_finally_def
        resume_def split: phase.splits sum.splits)
qed

lemma exclusive_exec:
  "controller_inv c \<Longrightarrow> exclusive_inv c \<Longrightarrow> noInvalidUploads es \<Longrightarrow>
   exec mk c es = Some c' \<Longrightarrow> exclusive_inv c'"
proof (induction es arbitrary: c)
  case Nil
  then show ?case by simp
next
  case (Cons e es)
  from Cons.prems obtain d where d: "fire mk c e = Some d" and rest: "exec mk d es = Some c'"
    by (auto split: option.splits)
  from Cons.prems(3) have e: "\<not> invalidUpload e" and es: "noInvalidUploads es"
    by (simp_all add: noInvalidUploads_def)
  have "controller_inv d" using inv_fire [OF Cons.prems(1) d] .
  moreover have "exclusive_inv d"
    using exclusive_fire [OF Cons.prems(1,2) e d] .
  ultimately show ?case using Cons.IH [of d] es rest by simp
qed

lemma run_end_sets_one:
  assumes "controller_inv c" and "run c \<noteq> NoRun" and "fire mk c e = Some c'"
    and "run c' = NoRun"
  shows "analysisResult (ui c') \<noteq> None \<or> error (ui c') \<noteq> None"
  using assms
  by (cases e)
     (auto simp: controller_inv_def sliderDisabled_def analyzeButtonRendered_def
         after_extraction_def after_analysis_def catch_finally_def resume_def
       split: phase.splits sum.splits if_splits)

lemma fire_loading_frameCount:
  "isLoading (ui c) \<Longrightarrow> fire mk c e = Some c' \<Longrightarrow> frameCount (ui c') = frameCount (ui c)"
  by (cases e)
     (auto simp: handleFileUpload_def sliderDisabled_def analyzeButtonRendered_def
         after_extraction_def after_analysis_def catch_finally_def resume_def
       split: option.splits phase.splits sum.splits if_splits)

lemma exec_while_loading_frameCount:
  "exec_while_loading mk c es = Some c' \<Longrightarrow> frameCount (ui c') = frameCount (ui c)"
proof (induction es arbitrary: c)
  case Nil
  then show ?case by simp
next
  case (Cons e es)
  then show ?case
    by (auto split: if_splits option.splits dest: fire_loading_frameCount)
qed

lemma fire_keeps_file:
  "\<not> isUpload e \<Longrightarrow> fire mk c e = Some c' \<Longrightarrow>
   videoFile (ui c') = videoFile (ui c) \<and> videoUrl (ui c') = videoUrl (ui c)"
  by (cases e)
     (auto simp: handleAnalyze_def after_extraction_def after_analysis_def catch_finally_def
         resume_def
       split: option.splits phase.splits sum.splits if_splits)

lemma exec_keeps_file:
  "noUploads es \<Longrightarrow> exec mk c es = Some c' \<Longrightarrow>
   videoFile (ui c') = videoFile (ui c) \<and> videoUrl (ui c') = videoUrl (ui c)"
proof (induction es arbitrary: c)
  case Nil
  then show ?case by simp
next
  case (Cons e es)
  from Cons.prems obtain d where d: "fire mk c e = Some d" and rest: "exec mk d es = Some c'"
    by (auto split: option.splits)
  from Cons.prems(1) have e: "\<not> isUpload e" and es: "noUploads es"
    by (simp_all add: noUploads_def)
  have "videoFile (ui d) = videoFile (ui c) \<and> videoUrl (ui d) = videoUrl (ui c)"
    using fire_keeps_file [OF e d] .
  moreover have "videoFile (ui c') = videoFile (ui d) \<and> videoUrl (ui c') = videoUrl (ui d)"
    using Cons.IH [OF es rest] .
  ultimately show ?case by simp
qed

section \<open>Result and error\<close>

text \<open>
  C1, as amended. In every reachable state \<open>analysisResult\<close> and \<open>error\<close> are both
  present only when the error is the invalid-upload message: \<open>handleFileUpload\<close> sets it
  for a file that is not a video and leaves a result in place. As long as no invalid
  upload has happened at most one of the two is present. The step that ends a run leaves
  at least one of them present. A valid upload clears both, and so does the start of a
  run.
\<close>

theorem result_error_exclusive_unless_invalid_upload:
  assumes "exec createObjectURL initial_controller es = Some c"
  shows "(analysisResult (ui c) \<noteq> None \<and> error (ui c) \<noteq> None \<longrightarrow>
            error (ui c) = Some ''Please upload a valid video file.'')
       \<and> (noInvalidUploads es \<longrightarrow> analysisResult (ui c) = None \<or> error (ui c) = None)
       \<and> (\<forall>e c'. run c \<noteq> NoRun \<and> fire createObjectURL c e = Some c' \<and> run c' = NoRun \<longrightarrow>
            analysisResult (ui c') \<noteq> None \<or> error (ui c') \<noteq> None)
       \<and> (\<forall>f. startsWith (mime f) ''video/'' \<longrightarrow>
            analysisResult (handleFileUpload createObjectURL (Some f) (ui c)) = None
          \<and> error (handleFileUpload createObjectURL (Some f) (ui c)) = None)
       \<and> (videoFile (ui c) \<noteq> None \<longrightarrow>
            analysisResult (fst (handleAnalyze (ui c))) = None
          \<and> error (fst (handleAnalyze (ui c))) = None)"
proof -
  have inv: "controller_inv c" using inv_reachable [OF assms] .
  have one: "analysisResult (ui c) \<noteq> None \<and> error (ui c) \<noteq> None \<longrightarrow>
            error (ui c) = Some ''Please upload a valid video file.''"
    using inv by (simp add: controller_inv_def)
  have "exclusive_inv initial_controller"
    by (simp add: exclusive_inv_def initial_controller_def initial_state_def)
  then have two: "noInvalidUploads es \<longrightarrow> analysisResult (ui c) = None \<or> error (ui c) = None"
    using exclusive_exec [OF inv_initial _ _ assms] by (auto simp: exclusive_inv_def)
  have three: "\<forall>e c'. run c \<noteq> NoRun \<and> fire createObjectURL c e = Some c' \<and> run c' = NoRun \<longrightarrow>
            analysisResult (ui c') \<noteq> None \<or> error (ui c') \<noteq> None"
    using run_end_sets_one [OF inv] by blast
  have four: "\<forall>f. startsWith (mime f) ''video/'' \<longrightarrow>
            analysisResult (handleFileUpload createObjectURL (Some f) (ui c)) = None
          \<and> error (handleFileUpload createObjectURL (Some f) (ui c)) = None"
    by (simp add: handleFileUpload_def)
  have five: "videoFile (ui c) \<noteq> None \<longrightarrow>
            analysisResult (fst (handleAnalyze (ui c))) = None
          \<and> error (fst (handleAnalyze (ui c))) = None"
    by (auto simp: handleAnalyze_def)
  from one two three four five show ?thesis by blast
qed

theorem result_error_exclusive_unless_invalid_upload_witness:
  "exec blobUrl initial_controller
     [FileUpload (Some clip), AnalyzeClick, Progress 1, ExtractionSettled (Inr [''frame'']),
      AnalysisSettled (Inr report)] = Some finished
   \<and> noInvalidUploads
        [FileUpload (Some clip), AnalyzeClick, Progress 1, ExtractionSettled (Inr [''frame'']),
         AnalysisSettled (Inr report)]
   \<and> analysisResult (ui finished) = Some report \<and> error (ui finished) = None"
proof -
  have v: "noInvalidUploads
        [FileUpload (Some clip), AnalyzeClick, Progress 1, ExtractionSettled (Inr [''frame'']),
         AnalysisSettled (Inr report)]"
    by (simp add: noInvalidUploads_def startsWith_def clip_def)
  have r: "analysisResult (ui finished) = Some report"
    by (simp add: finished_def)
  have "analysisResult (ui finished) = None \<or> error (ui finished) = None"
    using result_error_exclusive_unless_invalid_upload
      [OF reach_finished, THEN conjunct2, THEN conjunct1, THEN mp, OF v] .
  with r reach_finished v show ?thesis by simp
qed

text \<open>
  The claim as first stated fails: after a finished run a file that is not a video is
  uploaded, and the result and the error are both present.
\<close>

theorem result_and_error_counterexample:
  "exec blobUrl initial_controller
     [FileUpload (Some clip), AnalyzeClick, Progress 1, ExtractionSettled (Inr [''frame'']),
      AnalysisSettled (Inr report), FileUpload (Some memo)]
     = Some finished_then_invalid
   \<and> analysisResult (ui finished_then_invalid) = Some report
   \<and> error (ui finished_then_invalid) = Some ''Please upload a valid video file.''"
  by (simp add: controller_defs sample_defs)

section \<open>Failures of a run\<close>

text \<open>
  C2. When the extraction yields no frame the run ends as a failure: the call of
  \<open>analyzeVideoFrames\<close> is never pending with an empty list, and from a state that is
  extracting an empty list of frames leads to the state with the error set, the loading
  flag and message cleared, no run pending and still no result.
\<close>

theorem zero_frames_is_failure:
  assumes "exec createObjectURL initial_controller es = Some c"
  shows "run c \<noteq> Analyzing []
       \<and> (\<forall>f n. run c = Extracting f n \<longrightarrow>
             analysisResult (ui c) = None
           \<and> fire createObjectURL c (ExtractionSettled (Inr [])) =
               Some \<lparr>ui = (ui c)\<lparr>error := Some ''Analysis Failed: Could not extract any frames from the video. The file might be corrupted or in an unsupported format.'',
                              isLoading := False, loadingMessage := ''''\<rparr>,
                     run = NoRun\<rparr>)"
proof -
  have inv: "controller_inv c" using inv_reachable [OF assms] .
  then have "run c \<noteq> Analyzing []" by (simp add: controller_inv_def)
  moreover have "analysisResult (ui c) = None" if "run c = Extracting f n" for f n
    using inv that by (auto simp: controller_inv_def)
  moreover have "fire createObjectURL c (ExtractionSettled (Inr [])) =
               Some \<lparr>ui = (ui c)\<lparr>error := Some ''Analysis Failed: Could not extract any frames from the video. The file might be corrupted or in an unsupported format.'',
                              isLoading := False, loadingMessage := ''''\<rparr>,
                     run = NoRun\<rparr>" if "run c = Extracting f n" for f n
    using that by (simp add: after_extraction_def catch_finally_def resume_def)
  ultimately show ?thesis by blast
qed

theorem zero_frames_is_failure_witness:
  "exec blobUrl initial_controller [FileUpload (Some clip), AnalyzeClick] = Some extracting
   \<and> run extracting = Extracting clip 15
   \<and> fire blobUrl extracting (ExtractionSettled (Inr [])) =
       Some \<lparr>ui = selected\<lparr>error := Some ''Analysis Failed: Could not extract any frames from the video. The file might be corrupted or in an unsupported format.''\<rparr>,
             run = NoRun\<rparr>"
proof -
  have p: "run extracting = Extracting clip 15"
    by (simp add: extracting_def)
  from zero_frames_is_failure [OF reach_extracting] p
  have "fire blobUrl extracting (ExtractionSettled (Inr [])) =
          Some \<lparr>ui = (ui extracting)\<lparr>error := Some ''Analysis Failed: Could not extract any frames from the video. The file might be corrupted or in an unsupported format.'',
                     isLoading := False, loadingMessage := ''''\<rparr>,
                run = NoRun\<rparr>"
    by blast
  moreover have "(ui extracting)\<lparr>error := Some ''Analysis Failed: Could not extract any frames from the video. The file might be corrupted or in an unsupported format.'',
                     isLoading := False, loadingMessage := ''''\<rparr>
       = selected\<lparr>error := Some ''Analysis Failed: Could not extract any frames from the video. The file might be corrupted or in an unsupported format.''\<rparr>"
    by (simp add: extracting_def selected_def initial_state_def)
  ultimately show ?thesis using reach_extracting p by simp
qed

text \<open>
  C3, as amended. When the extraction or the analysis of a run throws, or the controller
  itself throws for want of frames, the error becomes \<open>Analysis Failed:\<close> followed by
  the message of the thrown value when that is an instance of \<open>Error\<close>, and by
  \<open>An unknown error occurred during analysis.\<close> for any other thrown value; the
  loading flag is cleared, no run is pending and there is no result.
\<close>

theorem fault_sets_error:
  assumes "exec createObjectURL initial_controller es = Some c"
    and "fire createObjectURL c e = Some c'"
    and "e = ExtractionSettled (Inl err) \<or> e = AnalysisSettled (Inl err)
       \<or> (e = ExtractionSettled (Inr []) \<and> err = ErrorObj ''Could not extract any frames from the video. The file might be corrupted or in an unsupported format.'')"
  shows "error (ui c') =
           Some (''Analysis Failed: '' @
             (case err of ErrorObj m \<Rightarrow> m
                        | NonError d \<Rightarrow> ''An unknown error occurred during analysis.''))
       \<and> \<not> isLoading (ui c') \<and> analysisResult (ui c') = None \<and> run c' = NoRun"
proof -
  have inv: "controller_inv c" using inv_reachable [OF assms(1)] .
  have msg: "errorMessage err =
      (case err of ErrorObj m \<Rightarrow> m | NonError d \<Rightarrow> ''An unknown error occurred during analysis.'')"
    by (cases err) simp_all
  from assms(3) show ?thesis
  proof (elim disjE)
    assume "e = ExtractionSettled (Inl err)"
    with assms(2) inv msg show ?thesis
      by (auto simp: controller_inv_def after_extraction_def catch_finally_def resume_def
          split: phase.splits)
  next
    assume "e = AnalysisSettled (Inl err)"
    with assms(2) inv msg show ?thesis
      by (auto simp: controller_inv_def after_analysis_def catch_finally_def resume_def
          split: phase.splits)
  next
    assume "e = ExtractionSettled (Inr []) \<and> err = ErrorObj ''Could not extract any frames from the video. The file might be corrupted or in an unsupported format.''"
    with assms(2) inv show ?thesis
      by (auto simp: controller_inv_def after_extraction_def catch_finally_def resume_def
          split: phase.splits)
  qed
qed

theorem fault_sets_error_witness:
  "exec blobUrl initial_controller
     [FileUpload (Some clip), AnalyzeClick, Progress 1, ExtractionSettled (Inr [''frame''])]
     = Some analyzing
   \<and> fire blobUrl analyzing (AnalysisSettled (Inl (ErrorObj ''quota''))) =
       Some \<lparr>ui = selected\<lparr>error := Some ''Analysis Failed: quota'', extractionProgress := 1\<rparr>,
             run = NoRun\<rparr>
   \<and> error (selected\<lparr>error := Some ''Analysis Failed: quota'', extractionProgress := 1\<rparr>)
       = Some ''Analysis Failed: quota''
   \<and> \<not> isLoading (selected\<lparr>error := Some ''Analysis Failed: quota'', extractionProgress := 1\<rparr>)
   \<and> analysisResult (selected\<lparr>error := Some ''Analysis Failed: quota'', extractionProgress := 1\<rparr>)
       = None"
proof -
  have f: "fire blobUrl analyzing (AnalysisSettled (Inl (ErrorObj ''quota''))) =
       Some \<lparr>ui = selected\<lparr>error := Some ''Analysis Failed: quota'', extractionProgress := 1\<rparr>,
             run = NoRun\<rparr>"
    by (simp add: analyzing_def selected_def initial_state_def after_analysis_def
        catch_finally_def resume_def)
  from fault_sets_error [OF reach_analyzing f] reach_analyzing f
  show ?thesis by simp
qed

text \<open>
  The claim as first stated fails for a thrown value that is not an \<open>Error\<close>: the
  extraction rejects with the string \<open>boom\<close>, and the error shown does not carry it.
\<close>

theorem non_error_fault_counterexample:
  "exec blobUrl initial_controller [FileUpload (Some clip), AnalyzeClick] = Some extracting
   \<and> fire blobUrl extracting (ExtractionSettled (Inl (NonError ''boom''))) =
       Some \<lparr>ui = selected\<lparr>error := Some ''Analysis Failed: An unknown error occurred during analysis.''\<rparr>,
             run = NoRun\<rparr>
   \<and> error (selected\<lparr>error := Some ''Analysis Failed: An unknown error occurred during analysis.''\<rparr>)
       \<noteq> Some (''Analysis Failed: '' @ fault_message (NonError ''boom''))"
  using reach_extracting
  by (simp add: extracting_def selected_def initial_state_def after_extraction_def
      catch_finally_def resume_def)

text \<open>
  C4. With no file selected \<open>handleAnalyze\<close> only sets the error \<open>No video file
  selected.\<close> and returns without starting a run: every other field, the loading flag
  among them, is as before, and in a reachable state with no file that flag is false.
\<close>

theorem analyze_without_file:
  assumes "videoFile s = None"
  shows "handleAnalyze s = (s\<lparr>error := Some ''No video file selected.''\<rparr>, NoRun)
       \<and> isLoading (fst (handleAnalyze s)) = isLoading s
       \<and> (exec createObjectURL initial_controller es = Some c \<and> ui c = s
            \<longrightarrow> \<not> isLoading (fst (handleAnalyze s)))"
proof -
  have eq: "handleAnalyze s = (s\<lparr>error := Some ''No video file selected.''\<rparr>, NoRun)"
    using assms by (simp add: handleAnalyze_def)
  have "\<not> isLoading s" if "exec createObjectURL initial_controller es = Some c" and "ui c = s"
    using inv_reachable [OF that(1)] that(2) assms by (auto simp: controller_inv_def)
  with eq show ?thesis by simp
qed

theorem analyze_without_file_witness:
  "videoFile initial_state = None
   \<and> handleAnalyze initial_state
       = (initial_state\<lparr>error := Some ''No video file selected.''\<rparr>, NoRun)
   \<and> \<not> isLoading (fst (handleAnalyze initial_state))"
proof -
  have h: "videoFile initial_state = None"
    by (simp add: initial_state_def)
  have r: "exec blobUrl initial_controller [] = Some initial_controller
           \<and> ui initial_controller = initial_state"
    by (simp add: initial_controller_def)
  from analyze_without_file [OF h, of blobUrl "[]" initial_controller] r h
  show ?thesis by blast
qed

section \<open>Uploads\<close>

text \<open>
  C5. A file whose MIME type does not start with \<open>video/\<close> leaves \<open>videoFile\<close> and
  \<open>videoUrl\<close> as they were and sets the invalid-upload message, in every state.
\<close>

theorem invalid_upload_keeps_file:
  assumes "\<not> startsWith (mime f) ''video/''"
  shows "videoFile (handleFileUpload createObjectURL (Some f) s) = videoFile s
       \<and> videoUrl (handleFileUpload createObjectURL (Some f) s) = videoUrl s
       \<and> error (handleFileUpload createObjectURL (Some f) s)
           = Some ''Please upload a valid video file.''"
  using assms by (simp add: handleFileUpload_def)

theorem invalid_upload_keeps_file_witness:
  "\<not> startsWith (mime memo) ''video/''
   \<and> videoFile (handleFileUpload blobUrl (Some memo) initial_state) = None
   \<and> videoUrl (handleFileUpload blobUrl (Some memo) initial_state) = None
   \<and> error (handleFileUpload blobUrl (Some memo) initial_state)
       = Some ''Please upload a valid video file.''"
proof -
  have h: "\<not> startsWith (mime memo) ''video/''"
    by (simp add: startsWith_def memo_def)
  from invalid_upload_keeps_file [OF h, of blobUrl initial_state] h
  show ?thesis by (simp add: initial_state_def)
qed

text \<open>
  C6. A file whose MIME type starts with \<open>video/\<close>, uploaded while nothing is in
  flight, is stored together with the preview URL made for it; the result and the error
  are cleared and nothing is loading: the controller has a file selected.
\<close>

theorem valid_upload_selects_file:
  assumes "startsWith (mime f) ''video/''" and "\<not> isLoading s"
  shows "handleFileUpload createObjectURL (Some f) s
           = s\<lparr>videoFile := Some f, videoUrl := Some (createObjectURL f),
                analysisResult := None, error := None\<rparr>
       \<and> videoFile (handleFileUpload createObjectURL (Some f) s) = Some f
       \<and> videoUrl (handleFileUpload createObjectURL (Some f) s) = Some (createObjectURL f)
       \<and> analysisResult (handleFileUpload createObjectURL (Some f) s) = None
       \<and> error (handleFileUpload createObjectURL (Some f) s) = None
       \<and> \<not> isLoading (handleFileUpload createObjectURL (Some f) s)"
  using assms by (simp add: handleFileUpload_def)

theorem valid_upload_selects_file_witness:
  "startsWith (mime clip) ''video/'' \<and> \<not> isLoading (ui finished)
   \<and> handleFileUpload blobUrl (Some clip) (ui finished) = selected\<lparr>extractionProgress := 1\<rparr>"
proof -
  have h1: "startsWith (mime clip) ''video/''"
    by (simp add: startsWith_def clip_def)
  have h2: "\<not> isLoading (ui finished)"
    by (simp add: finished_def selected_def initial_state_def)
  from valid_upload_selects_file [OF h1 h2, of blobUrl] h1 h2
  show ?thesis by (simp add: sample_defs initial_state_def)
qed

section \<open>The loading flag\<close>

text \<open>
  C7. In every reachable state the loading flag is raised exactly when a run is
  extracting or analyzing. With a file selected \<open>handleAnalyze\<close> raises it and starts
  the extraction of that file. While the extraction is pending every progress report and
  every settlement is taken: progress and a non-empty list of frames keep the flag
  raised, the latter with the analysis pending; an empty list and a thrown value end the
  run with the flag cleared and the error set. While the analysis is pending every
  settlement ends the run with the flag cleared, with the result set or with the error
  set. The lines that follow a settled analysis, a thrown value or an empty list clear
  the flag in whatever state they run.
\<close>

theorem loading_exactly_in_flight:
  assumes "exec createObjectURL initial_controller es = Some c"
  shows "(isLoading (ui c) \<longleftrightarrow> (\<exists>f n. run c = Extracting f n) \<or> (\<exists>fs. run c = Analyzing fs))
       \<and> (\<forall>f. videoFile (ui c) = Some f \<longrightarrow>
             isLoading (fst (handleAnalyze (ui c)))
           \<and> snd (handleAnalyze (ui c)) = Extracting f (frameCount (ui c)))
       \<and> (\<forall>e c'. fire createObjectURL c e = Some c' \<and> run c \<noteq> NoRun \<and> run c' = NoRun
             \<longrightarrow> \<not> isLoading (ui c'))
       \<and> (\<forall>f. videoFile (ui c) = Some f \<and> \<not> isLoading (ui c) \<longrightarrow>
             (\<exists>c'. fire createObjectURL c AnalyzeClick = Some c'
                  \<and> isLoading (ui c') \<and> run c' = Extracting f (frameCount (ui c))))
       \<and> (\<forall>f n. run c = Extracting f n \<longrightarrow>
             (\<forall>p. \<exists>c'. fire createObjectURL c (Progress p) = Some c'
                  \<and> isLoading (ui c') \<and> run c' = Extracting f n)
           \<and> (\<forall>fs. fs \<noteq> [] \<longrightarrow>
                (\<exists>c'. fire createObjectURL c (ExtractionSettled (Inr fs)) = Some c'
                   \<and> isLoading (ui c') \<and> run c' = Analyzing fs))
           \<and> (\<exists>c'. fire createObjectURL c (ExtractionSettled (Inr [])) = Some c'
                   \<and> \<not> isLoading (ui c') \<and> run c' = NoRun \<and> error (ui c') \<noteq> None)
           \<and> (\<forall>err. \<exists>c'. fire createObjectURL c (ExtractionSettled (Inl err)) = Some c'
                   \<and> \<not> isLoading (ui c') \<and> run c' = NoRun \<and> error (ui c') \<noteq> None))
       \<and> (\<forall>fs. run c = Analyzing fs \<longrightarrow>
             (\<forall>r. \<exists>c'. fire createObjectURL c (AnalysisSettled (Inr r)) = Some c'
                   \<and> \<not> isLoading (ui c') \<and> run c' = NoRun \<and> analysisResult (ui c') = Some r)
           \<and> (\<forall>err. \<exists>c'. fire createObjectURL c (AnalysisSettled (Inl err)) = Some c'
                   \<and> \<not> isLoading (ui c') \<and> run c' = NoRun \<and> error (ui c') \<noteq> None))
       \<and> \<not> isLoading (fst (after_analysis outcome s))
       \<and> \<not> isLoading (fst (after_extraction (Inl err0) s))
       \<and> \<not> isLoading (fst (after_extraction (Inr []) s))"
proof -
  have inv: "controller_inv c" using inv_reachable [OF assms] .
  have a: "isLoading (ui c) \<longleftrightarrow> (\<exists>f n. run c = Extracting f n) \<or> (\<exists>fs. run c = Analyzing fs)"
    using inv by (cases "run c") (auto simp: controller_inv_def)
  have b: "\<forall>f. videoFile (ui c) = Some f \<longrightarrow>
             isLoading (fst (handleAnalyze (ui c)))
           \<and> snd (handleAnalyze (ui c)) = Extracting f (frameCount (ui c))"
    by (simp add: handleAnalyze_def)
  have c: "\<not> isLoading (ui c')" if "fire createObjectURL c e = Some c'" and "run c' = NoRun" for e c'
    using inv_fire [OF inv that(1)] that(2) by (simp add: controller_inv_def)
  have d: "\<forall>f. videoFile (ui c) = Some f \<and> \<not> isLoading (ui c) \<longrightarrow>
             (\<exists>c'. fire createObjectURL c AnalyzeClick = Some c'
                  \<and> isLoading (ui c') \<and> run c' = Extracting f (frameCount (ui c)))"
    by (simp add: analyzeButtonRendered_def handleAnalyze_def resume_def)
  have busy: "isLoading (ui c)" if "run c \<noteq> NoRun"
    using inv that by (simp add: controller_inv_def)
  have e: "\<forall>f n. run c = Extracting f n \<longrightarrow>
             (\<forall>p. \<exists>c'. fire createObjectURL c (Progress p) = Some c'
                  \<and> isLoading (ui c') \<and> run c' = Extracting f n)
           \<and> (\<forall>fs. fs \<noteq> [] \<longrightarrow>
                (\<exists>c'. fire createObjectURL c (ExtractionSettled (Inr fs)) = Some c'
                   \<and> isLoading (ui c') \<and> run c' = Analyzing fs))
           \<and> (\<exists>c'. fire createObjectURL c (ExtractionSettled (Inr [])) = Some c'
                   \<and> \<not> isLoading (ui c') \<and> run c' = NoRun \<and> error (ui c') \<noteq> None)
           \<and> (\<forall>err. \<exists>c'. fire createObjectURL c (ExtractionSettled (Inl err)) = Some c'
                   \<and> \<not> isLoading (ui c') \<and> run c' = NoRun \<and> error (ui c') \<noteq> None)"
    using busy by (auto simp: after_extraction_def catch_finally_def resume_def)
  have f: "\<forall>fs. run c = Analyzing fs \<longrightarrow>
             (\<forall>r. \<exists>c'. fire createObjectURL c (AnalysisSettled (Inr r)) = Some c'
                   \<and> \<not> isLoading (ui c') \<and> run c' = NoRun \<and> analysisResult (ui c') = Some r)
           \<and> (\<forall>err. \<exists>c'. fire createObjectURL c (AnalysisSettled (Inl err)) = Some c'
                   \<and> \<not> isLoading (ui c') \<and> run c' = NoRun \<and> error (ui c') \<noteq> None)"
    by (auto simp: after_analysis_def catch_finally_def resume_def)
  have g: "\<not> isLoading (fst (after_analysis outcome s))"
    by (cases outcome) (simp_all add: after_analysis_def catch_finally_def)
  have h: "\<not> isLoading (fst (after_extraction (Inl err0) s))"
    "\<not> isLoading (fst (after_extraction (Inr []) s))"
    by (simp_all add: after_extraction_def catch_finally_def)
  from a b c d e f g h show ?thesis by blast
qed

theorem loading_exactly_in_flight_witness:
  "exec blobUrl initial_controller
     [FileUpload (Some clip), AnalyzeClick, Progress 1, ExtractionSettled (Inr [''frame''])]
     = Some analyzing
   \<and> run analyzing = Analyzing [''frame''] \<and> isLoading (ui analyzing)
   \<and> fire blobUrl analyzing (AnalysisSettled (Inr report)) = Some finished
   \<and> run finished = NoRun \<and> \<not> isLoading (ui finished)
   \<and> fire blobUrl analyzing (AnalysisSettled (Inl (ErrorObj ''quota''))) =
       Some \<lparr>ui = selected\<lparr>error := Some ''Analysis Failed: quota'', extractionProgress := 1\<rparr>,
             run = NoRun\<rparr>
   \<and> \<not> isLoading (selected\<lparr>error := Some ''Analysis Failed: quota'', extractionProgress := 1\<rparr>)"
proof -
  have p: "run analyzing = Analyzing [''frame'']"
    by (simp add: analyzing_def)
  have ok: "fire blobUrl analyzing (AnalysisSettled (Inr report)) = Some finished"
    by (simp add: controller_defs sample_defs)
  have ko: "fire blobUrl analyzing (AnalysisSettled (Inl (ErrorObj ''quota''))) =
       Some \<lparr>ui = selected\<lparr>error := Some ''Analysis Failed: quota'', extractionProgress := 1\<rparr>,
             run = NoRun\<rparr>"
    by (simp add: controller_defs sample_defs)
  note t = loading_exactly_in_flight [OF reach_analyzing]
  from t p have up: "isLoading (ui analyzing)"
    by blast
  from t p have "\<exists>c'. fire blobUrl analyzing (AnalysisSettled (Inr report)) = Some c'
       \<and> \<not> isLoading (ui c') \<and> run c' = NoRun \<and> analysisResult (ui c') = Some report"
    by blast
  with ok have fin: "\<not> isLoading (ui finished) \<and> run finished = NoRun"
    by simp
  from t p have "\<exists>c'. fire blobUrl analyzing (AnalysisSettled (Inl (ErrorObj ''quota''))) = Some c'
       \<and> \<not> isLoading (ui c') \<and> run c' = NoRun \<and> error (ui c') \<noteq> None"
    by blast
  with ko have "\<not> isLoading (selected\<lparr>error := Some ''Analysis Failed: quota'', extractionProgress := 1\<rparr>)"
    by simp
  with reach_analyzing p up ok ko fin show ?thesis by simp
qed

text \<open>
  C8. While the loading flag is raised the slider cannot fire, and over any in-flight
  period the frame count at the end is the one at the start.
\<close>

theorem frame_count_fixed_in_flight:
  assumes "isLoading (ui c)"
  shows "fire createObjectURL c (SliderChange v) = None
       \<and> (exec_while_loading createObjectURL c es = Some c'
            \<longrightarrow> frameCount (ui c') = frameCount (ui c))"
  using assms exec_while_loading_frameCount [of createObjectURL c es c']
  by (simp add: sliderDisabled_def)

theorem frame_count_fixed_in_flight_witness:
  "isLoading (ui extracting)
   \<and> fire blobUrl extracting (SliderChange 30) = None
   \<and> exec_while_loading blobUrl extracting
        [Progress 1, ExtractionSettled (Inr [''frame'']), AnalysisSettled (Inr report)]
       = Some finished
   \<and> frameCount (ui finished) = frameCount (ui extracting)"
proof -
  have h: "isLoading (ui extracting)"
    by (simp add: extracting_def)
  have r: "exec_while_loading blobUrl extracting
        [Progress 1, ExtractionSettled (Inr [''frame'']), AnalysisSettled (Inr report)]
       = Some finished"
    by (simp add: controller_defs sample_defs)
  from frame_count_fixed_in_flight [OF h, of blobUrl 30
      "[Progress 1, ExtractionSettled (Inr [''frame'']), AnalysisSettled (Inr report)]" finished]
    h r
  show ?thesis by blast
qed

text \<open>
  C9. No event other than an upload changes the selected file or its preview URL, so a
  run, whose steps are the click, the progress reports and the two settlements, ends
  with both as they were when it began. When a run that was pending in a reachable state
  has ended, the analyze button starts the extraction of the same file again.
\<close>

theorem run_keeps_file:
  assumes "exec createObjectURL c es = Some c'" and "noUploads es"
  shows "videoFile (ui c') = videoFile (ui c) \<and> videoUrl (ui c') = videoUrl (ui c)
       \<and> (exec createObjectURL initial_controller es0 = Some c \<and> run c \<noteq> NoRun \<and> run c' = NoRun
            \<longrightarrow> (\<exists>f c''. videoFile (ui c) = Some f
                    \<and> fire createObjectURL c' AnalyzeClick = Some c''
                    \<and> run c'' = Extracting f (frameCount (ui c'))))"
proof -
  have keep: "videoFile (ui c') = videoFile (ui c) \<and> videoUrl (ui c') = videoUrl (ui c)"
    using exec_keeps_file [OF assms(2,1)] .
  have again: "\<exists>f c''. videoFile (ui c) = Some f
                    \<and> fire createObjectURL c' AnalyzeClick = Some c''
                    \<and> run c'' = Extracting f (frameCount (ui c'))"
    if reach: "exec createObjectURL initial_controller es0 = Some c"
      and busy: "run c \<noteq> NoRun" and idle: "run c' = NoRun"
  proof -
    have inv: "controller_inv c" using inv_reachable [OF reach] .
    with busy obtain f where f: "videoFile (ui c) = Some f"
      by (auto simp: controller_inv_def)
    have "controller_inv c'" using inv_exec [OF inv assms(1)] .
    with idle have "\<not> isLoading (ui c')" by (simp add: controller_inv_def)
    with f keep have "fire createObjectURL c' AnalyzeClick = Some (resume (handleAnalyze (ui c')))"
      and "run (resume (handleAnalyze (ui c'))) = Extracting f (frameCount (ui c'))"
      by (simp_all add: analyzeButtonRendered_def handleAnalyze_def resume_def)
    with f show ?thesis by blast
  qed
  from keep again show ?thesis by blast
qed

theorem run_keeps_file_witness:
  "exec blobUrl extracting [Progress 0, ExtractionSettled (Inl (ErrorObj ''decode''))] = Some failed
   \<and> noUploads [Progress 0, ExtractionSettled (Inl (ErrorObj ''decode''))]
   \<and> exec blobUrl initial_controller [FileUpload (Some clip), AnalyzeClick] = Some extracting
   \<and> videoFile (ui failed) = Some clip \<and> videoUrl (ui failed) = Some ''blob:clip.mp4''
   \<and> fire blobUrl failed AnalyzeClick = Some extracting"
proof -
  have r: "exec blobUrl extracting [Progress 0, ExtractionSettled (Inl (ErrorObj ''decode''))]
           = Some failed"
    by (simp add: controller_defs sample_defs)
  have n: "noUploads [Progress 0, ExtractionSettled (Inl (ErrorObj ''decode''))]"
    by (simp add: noUploads_def)
  have s: "videoFile (ui extracting) = Some clip"
    "videoUrl (ui extracting) = Some ''blob:clip.mp4''"
    by (simp_all add: extracting_def selected_def)
  have a: "fire blobUrl failed AnalyzeClick = Some extracting"
    by (simp add: controller_defs sample_defs)
  from run_keeps_file [OF r n, of "[FileUpload (Some clip), AnalyzeClick]"] s
  have "videoFile (ui failed) = Some clip \<and> videoUrl (ui failed) = Some ''blob:clip.mp4''"
    by simp
  with r n reach_extracting a show ?thesis by simp
qed



end
